theory Spec2Isabelle
  imports Complex_Main
begin

section \<open>Single-precision values\<close>

text \<open>
  A C \<^verbatim>\<open>float\<close> is modelled as an exact real or the not-a-number value.  Finite
  arithmetic is carried out without rounding.  An operation applied outside its real
  domain (the square root of a negative number, a division by zero) yields \<open>NaN\<close>,
  \<open>NaN\<close> is absorbing for every arithmetic operation, and every ordered comparison with
  \<open>NaN\<close> is false, as in IEEE 754.  Infinities and rounding are not represented.
\<close>

datatype float = NaN | Fin real

instantiation float :: "{plus, minus, times, uminus, inverse, abs, ord}"
begin

fun plus_float :: "float \<Rightarrow> float \<Rightarrow> float" where
  "plus_float (Fin a) (Fin b) = Fin (a + b)"
| "plus_float _ _ = NaN"

fun minus_float :: "float \<Rightarrow> float \<Rightarrow> float" where
  "minus_float (Fin a) (Fin b) = Fin (a - b)"
| "minus_float _ _ = NaN"

fun times_float :: "float \<Rightarrow> float \<Rightarrow> float" where
  "times_float (Fin a) (Fin b) = Fin (a * b)"
| "times_float _ _ = NaN"

fun uminus_float :: "float \<Rightarrow> float" where
  "uminus_float (Fin a) = Fin (- a)"
| "uminus_float NaN = NaN"

fun divide_float :: "float \<Rightarrow> float \<Rightarrow> float" where
  "divide_float (Fin a) (Fin b) = (if b = 0 then NaN else Fin (a / b))"
| "divide_float _ _ = NaN"

definition inverse_float :: "float \<Rightarrow> float" where
  "inverse_float a = divide (Fin 1) a"

fun abs_float :: "float \<Rightarrow> float" where
  "abs_float (Fin a) = Fin \<bar>a\<bar>"
| "abs_float NaN = NaN"

fun less_float :: "float \<Rightarrow> float \<Rightarrow> bool" where
  "less_float (Fin a) (Fin b) = (a < b)"
| "less_float _ _ = False"

fun less_eq_float :: "float \<Rightarrow> float \<Rightarrow> bool" where
  "less_eq_float (Fin a) (Fin b) = (a \<le> b)"
| "less_eq_float _ _ = False"

instance ..

end

text \<open>The C library functions \<^verbatim>\<open>sqrt\<close>, \<^verbatim>\<open>cos\<close>, \<^verbatim>\<open>sin\<close> and \<^verbatim>\<open>pow\<close> with an
  integer exponent.\<close>

fun fsqrt :: "float \<Rightarrow> float" where
  "fsqrt (Fin a) = (if a < 0 then NaN else Fin (sqrt a))"
| "fsqrt NaN = NaN"

fun fcos :: "float \<Rightarrow> float" where
  "fcos (Fin a) = Fin (cos a)"
| "fcos NaN = NaN"

fun fsin :: "float \<Rightarrow> float" where
  "fsin (Fin a) = Fin (sin a)"
| "fsin NaN = NaN"

fun fpow :: "float \<Rightarrow> nat \<Rightarrow> float" where
  "fpow (Fin a) n = Fin (a ^ n)"
| "fpow NaN n = NaN"

text \<open>Modelled from the spec: the macros \<^verbatim>\<open>TWO_PI\<close> and \<^verbatim>\<open>SQRT_OF_ONE_THIRD\<close> are
  declared in a header that is not part of the sources at hand; the spec gives them as
  \<open>2\<pi>\<close> and \<open>1/sqrt(3)\<close>.\<close>

definition TWO_PI :: float where
  "TWO_PI = Fin (2 * pi)"

definition SQRT_OF_ONE_THIRD :: float where
  "SQRT_OF_ONE_THIRD = Fin (sqrt (1 / 3))"


section \<open>Vectors and the GLM geometric functions\<close>

text \<open>\<^verbatim>\<open>glm::vec3\<close>: three floats; \<open>vec3_x\<close>, \<open>vec3_y\<close>, \<open>vec3_z\<close> are the members
  \<^verbatim>\<open>.x\<close>, \<^verbatim>\<open>.y\<close>, \<^verbatim>\<open>.z\<close>.  The operators \<open>+\<close>, \<open>-\<close>, \<open>*\<close> and unary minus act
  componentwise.\<close>

datatype vec3 = vec3 (vec3_x: float) (vec3_y: float) (vec3_z: float)

instantiation vec3 :: "{plus, minus, times, uminus}"
begin

fun plus_vec3 :: "vec3 \<Rightarrow> vec3 \<Rightarrow> vec3" where
  "plus_vec3 (vec3 a b c) (vec3 d e f) = vec3 (a + d) (b + e) (c + f)"

fun minus_vec3 :: "vec3 \<Rightarrow> vec3 \<Rightarrow> vec3" where
  "minus_vec3 (vec3 a b c) (vec3 d e f) = vec3 (a - d) (b - e) (c - f)"

fun times_vec3 :: "vec3 \<Rightarrow> vec3 \<Rightarrow> vec3" where
  "times_vec3 (vec3 a b c) (vec3 d e f) = vec3 (a * d) (b * e) (c * f)"

fun uminus_vec3 :: "vec3 \<Rightarrow> vec3" where
  "uminus_vec3 (vec3 a b c) = vec3 (- a) (- b) (- c)"

instance ..

end

text \<open>Scalar times vector (\<^verbatim>\<open>float * vec3\<close>) and vector times scalar
  (\<^verbatim>\<open>vec3 * float\<close>).\<close>

fun smulv :: "float \<Rightarrow> vec3 \<Rightarrow> vec3" where
  "smulv k (vec3 a b c) = vec3 (k * a) (k * b) (k * c)"

fun vmuls :: "vec3 \<Rightarrow> float \<Rightarrow> vec3" where
  "vmuls (vec3 a b c) k = vec3 (a * k) (b * k) (c * k)"

text \<open>The functions of the GLM library the program calls, after GLM's own definitions:
  \<^verbatim>\<open>dot\<close>, \<^verbatim>\<open>cross\<close>, \<^verbatim>\<open>length\<close>, \<^verbatim>\<open>normalize(v) = v * inversesqrt(dot(v, v))\<close>,
  \<^verbatim>\<open>reflect(I, N) = I - N * dot(N, I) * 2\<close> and \<^verbatim>\<open>refract\<close>, which returns the zero
  vector when \<^verbatim>\<open>k < 0\<close>.\<close>

fun dot :: "vec3 \<Rightarrow> vec3 \<Rightarrow> float" where
  "dot (vec3 a b c) (vec3 d e f) = a * d + b * e + c * f"

fun cross :: "vec3 \<Rightarrow> vec3 \<Rightarrow> vec3" where
  "cross (vec3 a b c) (vec3 d e f) = vec3 (b * f - e * c) (c * d - f * a) (a * e - d * b)"

definition vlength :: "vec3 \<Rightarrow> float" where
  "vlength v = fsqrt (dot v v)"

definition inversesqrt :: "float \<Rightarrow> float" where
  "inversesqrt a = Fin 1 / fsqrt a"

definition normalize :: "vec3 \<Rightarrow> vec3" where
  "normalize v = vmuls v (inversesqrt (dot v v))"

definition reflect :: "vec3 \<Rightarrow> vec3 \<Rightarrow> vec3" where
  "reflect I N = I - vmuls (vmuls N (dot N I)) (Fin 2)"

definition refract :: "vec3 \<Rightarrow> vec3 \<Rightarrow> float \<Rightarrow> vec3" where
  "refract I N eta =
     (let dotValue = dot N I;
          k = Fin 1 - eta * eta * (Fin 1 - dotValue * dotValue)
      in if k < Fin 0 then vec3 (Fin 0) (Fin 0) (Fin 0)
         else smulv eta I - smulv (eta * dotValue + fsqrt k) N)"


section \<open>The hemisphere samplers\<close>

text \<open>
  The random engine is an opaque state \<open>'g\<close>; the distribution object \<^verbatim>\<open>u01\<close> is a
  function that takes the engine state and returns the drawn float with the advanced
  state.  A function of the program that receives \<^verbatim>\<open>rng\<close> by reference returns the
  engine state it leaves behind.
\<close>

type_synonym 'g u01 = "'g \<Rightarrow> float \<times> 'g"

text \<open>Lines 24 to 41 of \<^verbatim>\<open>calculateRandomDirectionInHemisphere\<close>, which lines 57 to 76 of
  \<^verbatim>\<open>shirleyRandomDirectionInHemisphere\<close> repeat: the choice of a direction that is not
  the normal, the two perpendicular directions and the returned combination.\<close>

definition directionNotNormal :: "vec3 \<Rightarrow> vec3" where
  "directionNotNormal normal =
     (if \<bar>vec3_x normal\<bar> < SQRT_OF_ONE_THIRD then vec3 (Fin 1) (Fin 0) (Fin 0)
      else if \<bar>vec3_y normal\<bar> < SQRT_OF_ONE_THIRD then vec3 (Fin 0) (Fin 1) (Fin 0)
      else vec3 (Fin 0) (Fin 0) (Fin 1))"

definition hemisphereDirection :: "vec3 \<Rightarrow> float \<Rightarrow> float \<Rightarrow> float \<Rightarrow> vec3" where
  "hemisphereDirection normal up over around =
     (let perpendicularDirection1 = normalize (cross normal (directionNotNormal normal));
          perpendicularDirection2 = normalize (cross normal perpendicularDirection1)
      in smulv up normal
         + smulv (fcos around * over) perpendicularDirection1
         + smulv (fsin around * over) perpendicularDirection2)"

definition calculateRandomDirectionInHemisphere ::
  "'g u01 \<Rightarrow> vec3 \<Rightarrow> 'g \<Rightarrow> vec3 \<times> 'g" where
  "calculateRandomDirectionInHemisphere u01 normal rng =
     (let (d1, rng1) = u01 rng;
          up = fsqrt d1;
          over = fsqrt (Fin 1 - up * up);
          (d2, rng2) = u01 rng1;
          around = d2 * TWO_PI
      in (hemisphereDirection normal up over around, rng2))"

text \<open>Lines 50 and 51: the remapped first and second coordinate.\<close>

definition shirley_s_p :: "float \<Rightarrow> float" where
  "shirley_s_p s =
     (if s < Fin 0.5 then - Fin 0.5 + fsqrt (Fin 2 * s)
      else Fin 1.5 - fsqrt (Fin 2 - Fin 2 * s))"

definition shirley_t_p :: "float \<Rightarrow> float \<Rightarrow> float" where
  "shirley_t_p s t =
     (if s < Fin 0.5 then - Fin 0.5 + fsqrt (Fin 2 * t)
      else Fin 1.5 - fsqrt (Fin 2 - Fin 2 * t))"

definition shirleyRandomDirectionInHemisphere ::
  "'g u01 \<Rightarrow> vec3 \<Rightarrow> 'g \<Rightarrow> vec3 \<times> 'g" where
  "shirleyRandomDirectionInHemisphere u01 normal rng =
     (let (s, rng1) = u01 rng;
          (t, rng2) = u01 rng1;
          s_p = shirley_s_p s;
          t_p = shirley_t_p s t;
          up = fsqrt t_p;
          over = fsqrt (Fin 1 - up * up);
          around = s_p * TWO_PI
      in (hemisphereDirection normal up over around, rng2))"


section \<open>Scene structures\<close>

text \<open>Modelled from the spec: the structures \<^verbatim>\<open>Ray\<close>, \<^verbatim>\<open>PathSegment\<close>,
  \<^verbatim>\<open>ShadeableIntersection\<close> and \<^verbatim>\<open>Material\<close> are declared in a header that is not
  part of the sources at hand.  The fields are those the spec's data model lists and the
  program reads or writes; the two flags of a material are booleans, as the spec has
  them.  Fields a structure may have beyond these are the \<open>more\<close> part of its record.\<close>

record Ray =
  origin :: vec3
  direction :: vec3

record PathSegment =
  ray :: Ray
  color :: vec3
  pixelIndex :: int
  remainingBounces :: int

record ShadeableIntersection =
  t :: float
  surfaceNormal :: vec3
  outside :: bool

record Specular =
  color :: vec3

record Material =
  color :: vec3
  specular :: Specular
  hasReflective :: bool
  hasRefractive :: bool
  indexOfRefraction :: float


section \<open>Scattering\<close>

text \<open>The local values of \<^verbatim>\<open>scatterRay\<close>, each a function of the arguments it is
  computed from: \<^verbatim>\<open>intersect\<close> (line 114), \<^verbatim>\<open>dir_spec\<close> (line 118),
  \<^verbatim>\<open>cos_theta\<close>, \<^verbatim>\<open>sin_theta\<close> (lines 124, 125), \<^verbatim>\<open>ratio\<close> (lines 126 to 129),
  \<^verbatim>\<open>dir_refr\<close> (line 130), \<^verbatim>\<open>r0\<close> and the reflectance \<^verbatim>\<open>r\<close> (lines 131, 132).
  The ray direction they read is the one the path segment has on entry: the program
  assigns the direction only after they are computed.\<close>

definition intersect :: "'a PathSegment_scheme \<Rightarrow> 'b ShadeableIntersection_scheme \<Rightarrow> vec3" where
  "intersect pathSegment intersection =
     origin (ray pathSegment) + smulv (t intersection) (direction (ray pathSegment))"

definition dir_spec :: "'a PathSegment_scheme \<Rightarrow> 'b ShadeableIntersection_scheme \<Rightarrow> vec3" where
  "dir_spec pathSegment intersection =
     normalize (reflect (direction (ray pathSegment)) (surfaceNormal intersection))"

definition cos_theta :: "'a PathSegment_scheme \<Rightarrow> 'b ShadeableIntersection_scheme \<Rightarrow> float" where
  "cos_theta pathSegment intersection =
     dot (- direction (ray pathSegment)) (surfaceNormal intersection)"

definition sin_theta :: "'a PathSegment_scheme \<Rightarrow> 'b ShadeableIntersection_scheme \<Rightarrow> float" where
  "sin_theta pathSegment intersection =
     fsqrt (Fin 1 - cos_theta pathSegment intersection * cos_theta pathSegment intersection)"

definition ratio :: "'c Material_scheme \<Rightarrow> 'b ShadeableIntersection_scheme \<Rightarrow> float" where
  "ratio m intersection =
     (if \<not> outside intersection then Fin 1 / indexOfRefraction m else indexOfRefraction m)"

definition dir_refr ::
  "'a PathSegment_scheme \<Rightarrow> 'b ShadeableIntersection_scheme \<Rightarrow> 'c Material_scheme \<Rightarrow> vec3" where
  "dir_refr pathSegment intersection m =
     refract (direction (ray pathSegment)) (surfaceNormal intersection) (ratio m intersection)"

definition r0 :: "float \<Rightarrow> float" where
  "r0 ratio' = (Fin 1 - ratio') * (Fin 1 - ratio') / (Fin 1 + ratio') / (Fin 1 + ratio')"

definition reflectance ::
  "'a PathSegment_scheme \<Rightarrow> 'b ShadeableIntersection_scheme \<Rightarrow> 'c Material_scheme \<Rightarrow> float" where
  "reflectance pathSegment intersection m =
     r0 (ratio m intersection)
     + (Fin 1 - r0 (ratio m intersection)) * fpow (Fin 1 - cos_theta pathSegment intersection) 5"

text \<open>\<^verbatim>\<open>scatterRay\<close> receives the path segment, the intersection and the engine by
  non-constant reference and the material by constant reference; the model returns the
  three objects it could write to.  \<open>pathSegment1\<close> is the path segment after the
  assignment of line 115.  The branch of lines 164 and 165 is excluded by the
  preprocessor (\<^verbatim>\<open>#if 0\<close>) and not part of the program.\<close>

definition scatterRay ::
  "'g u01 \<Rightarrow> 'a PathSegment_scheme \<Rightarrow> 'b ShadeableIntersection_scheme \<Rightarrow> 'c Material_scheme
     \<Rightarrow> 'g \<Rightarrow> 'a PathSegment_scheme \<times> 'b ShadeableIntersection_scheme \<times> 'g" where
  "scatterRay u01 pathSegment intersection m rng =
     (let normal = surfaceNormal intersection;
          pathSegment1 = pathSegment\<lparr>ray := (ray pathSegment)
            \<lparr>origin := intersect pathSegment intersection + smulv (Fin 0.001) normal\<rparr>\<rparr>;
          (dir_diff, rng1) = shirleyRandomDirectionInHemisphere u01 normal rng;
          (choice, rng2) = u01 rng1
      in if hasRefractive m then
           (if ratio m intersection * sin_theta pathSegment intersection > Fin 1 then
              (pathSegment1
                 \<lparr>ray := (ray pathSegment1)\<lparr>direction := dir_spec pathSegment intersection\<rparr>,
                  PathSegment.color := PathSegment.color pathSegment1 * Specular.color (specular m)\<rparr>,
               intersection, rng2)
            else if choice > reflectance pathSegment intersection m then
              (pathSegment1
                 \<lparr>ray := (ray pathSegment1)
                    \<lparr>direction := dir_refr pathSegment intersection m,
                     origin := intersect pathSegment intersection - smulv (Fin 0.001) normal\<rparr>,
                  PathSegment.color := PathSegment.color pathSegment1 * Material.color m\<rparr>,
               intersection, rng2)
            else
              (pathSegment1
                 \<lparr>ray := (ray pathSegment1)\<lparr>direction := dir_spec pathSegment intersection\<rparr>,
                  PathSegment.color := PathSegment.color pathSegment1 * Specular.color (specular m)\<rparr>,
               intersection, rng2))
         else
           (let (spec, scale) =
                  (if hasReflective m then (choice > Fin 0.2, Fin 0.8) else (False, Fin 0));
                pathSegment2 = pathSegment1\<lparr>ray := (ray pathSegment1)
                  \<lparr>direction := (if spec then dir_spec pathSegment intersection else dir_diff)\<rparr>\<rparr>
            in if spec then
                 (pathSegment2\<lparr>PathSegment.color := PathSegment.color pathSegment2
                    * vmuls (Specular.color (specular m)) scale\<rparr>,
                  intersection, rng2)
               else
                 (pathSegment2\<lparr>PathSegment.color := PathSegment.color pathSegment2
                    * vmuls (Material.color m) (Fin 1 - scale)\<rparr>,
                  intersection, rng2)))"

text \<open>The two random values \<^verbatim>\<open>scatterRay\<close> works with, as functions of the distribution,
  the intersection and the engine state on entry: \<^verbatim>\<open>dir_diff\<close> (line 119) and
  \<^verbatim>\<open>choice\<close> (line 121).\<close>

definition dir_diff :: "'g u01 \<Rightarrow> 'b ShadeableIntersection_scheme \<Rightarrow> 'g \<Rightarrow> vec3" where
  "dir_diff u01 intersection rng =
     fst (shirleyRandomDirectionInHemisphere u01 (surfaceNormal intersection) rng)"

definition choice :: "'g u01 \<Rightarrow> 'b ShadeableIntersection_scheme \<Rightarrow> 'g \<Rightarrow> float" where
  "choice u01 intersection rng =
     fst (u01 (snd (shirleyRandomDirectionInHemisphere u01 (surfaceNormal intersection) rng)))"

text \<open>A deterministic engine for concrete runs: the state is the list of the values
  still to be drawn, and a draw removes the first of them.\<close>

fun replay :: "float list u01" where
  "replay (d # ds) = (d, ds)"
| "replay [] = (Fin 0, [])"


section \<open>Definitions the statements use\<close>

text \<open>The remapping of one coordinate as the spec words it (section 4.1, step 1): a value
  below one half goes to \<open>-0.5 + sqrt(2x)\<close>, any other to \<open>1.5 - sqrt(2 - 2x)\<close>.\<close>

definition concentric_remap_spec :: "float \<Rightarrow> float" where
  "concentric_remap_spec v =
     (if v < Fin 0.5 then - Fin 0.5 + fsqrt (Fin 2 * v) else Fin 1.5 - fsqrt (Fin 2 - Fin 2 * v))"

text \<open>The Schlick reflectance as the spec words it (section 4.2, step 4):
  \<open>r0 = ((1 - eta) / (1 + eta))\<^sup>2\<close> and \<open>r0 + (1 - r0) (1 - cosThetaI)\<^sup>5\<close>.\<close>

definition schlick_spec :: "float \<Rightarrow> float \<Rightarrow> float" where
  "schlick_spec eta cosThetaI =
     (let r0s = fpow ((Fin 1 - eta) / (Fin 1 + eta)) 2
      in r0s + (Fin 1 - r0s) * fpow (Fin 1 - cosThetaI) 5)"

text \<open>The probability that a value drawn uniformly from \<open>[0, 1)\<close> falls into an
  interval with end points \<open>lo \<le> hi\<close> inside \<open>[0, 1]\<close> is the length of the interval.\<close>

definition interval_prob :: "real \<Rightarrow> real \<Rightarrow> real" where
  "interval_prob lo hi = hi - lo"

text \<open>The engine state that one draw leaves behind.\<close>

definition advance :: "'g u01 \<Rightarrow> 'g \<Rightarrow> 'g" where
  "advance u01 rng = snd (u01 rng)"

text \<open>Concrete inputs: a ray that falls along the normal onto a horizontal surface and one
  that meets it obliquely, the hit on that surface, two refractive materials, a reflective
  and a purely diffuse one.\<close>

definition unit_z :: vec3 where "unit_z = vec3 (Fin 0) (Fin 0) (Fin 1)"

definition white :: vec3 where "white = vec3 (Fin 1) (Fin 1) (Fin 1)"

definition grey :: vec3 where "grey = vec3 (Fin 0.5) (Fin 0.5) (Fin 0.5)"

definition falling_segment :: PathSegment where
  "falling_segment =
     \<lparr>ray = \<lparr>origin = vec3 (Fin 0) (Fin 0) (Fin 1), direction = vec3 (Fin 0) (Fin 0) (Fin (- 1))\<rparr>,
      PathSegment.color = white, pixelIndex = 7, remainingBounces = 3\<rparr>"

definition oblique_segment :: PathSegment where
  "oblique_segment =
     \<lparr>ray = \<lparr>origin = vec3 (Fin (- 0.8)) (Fin 0) (Fin 0.6),
              direction = vec3 (Fin 0.8) (Fin 0) (Fin (- 0.6))\<rparr>,
      PathSegment.color = white, pixelIndex = 7, remainingBounces = 3\<rparr>"

definition floor_hit :: ShadeableIntersection where
  "floor_hit = \<lparr>t = Fin 1, surfaceNormal = unit_z, outside = True\<rparr>"

definition glass :: Material where
  "glass = \<lparr>Material.color = grey, specular = \<lparr>Specular.color = white\<rparr>, hasReflective = False,
            hasRefractive = True, indexOfRefraction = Fin 1.5\<rparr>"


definition mirror :: Material where
  "mirror = \<lparr>Material.color = white, specular = \<lparr>Specular.color = white\<rparr>, hasReflective = True,
             hasRefractive = False, indexOfRefraction = Fin 0\<rparr>"

definition chalk :: Material where
  "chalk = \<lparr>Material.color = grey, specular = \<lparr>Specular.color = white\<rparr>, hasReflective = False,
            hasRefractive = False, indexOfRefraction = Fin 0\<rparr>"


section \<open>Auxiliary facts\<close>

subsection \<open>Arithmetic with the not-a-number value\<close>

lemma float_add_NaN [simp]: "a + NaN = (NaN::float)" "NaN + a = (NaN::float)"
  by (cases a; simp)+

lemma float_mul_NaN [simp]: "a * NaN = (NaN::float)" "NaN * a = (NaN::float)"
  by (cases a; simp)+

lemma smulv_NaN: "smulv NaN v = vec3 NaN NaN NaN"
  by (cases v) simp

lemma vec3_add_NaN: "v + vec3 NaN NaN NaN = vec3 NaN NaN NaN"
  by (cases v) simp

lemma sqrt_quarter: "sqrt (1 / 4) = 1 / 2"
  by (rule real_sqrt_unique) (simp_all add: power2_eq_square)

lemma sqrt_sixteenth: "sqrt (1 / 16) = 1 / 4"
  by (rule real_sqrt_unique) (simp_all add: power2_eq_square)

lemma sqrt_seven_quarters: "sqrt (7 / 4) \<noteq> 3 / 2"
proof
  assume a: "sqrt (7 / 4) = 3 / 2"
  have "(sqrt (7 / 4))\<^sup>2 = (7 / 4 :: real)" by simp
  then have "(3 / 2)\<^sup>2 = (7 / 4 :: real)" unfolding a .
  then show False by (simp add: power2_eq_square)
qed


subsection \<open>The samplers\<close>

lemma shirley_engine:
  "snd (shirleyRandomDirectionInHemisphere u01 normal rng) = snd (u01 (snd (u01 rng)))"
  by (simp add: shirleyRandomDirectionInHemisphere_def Let_def split: prod.split)

lemma shirley_value:
  "fst (shirleyRandomDirectionInHemisphere u01 normal rng) =
     hemisphereDirection normal
       (fsqrt (shirley_t_p (fst (u01 rng)) (fst (u01 (advance u01 rng)))))
       (fsqrt (Fin 1 - fsqrt (shirley_t_p (fst (u01 rng)) (fst (u01 (advance u01 rng))))
                       * fsqrt (shirley_t_p (fst (u01 rng)) (fst (u01 (advance u01 rng))))))
       (shirley_s_p (fst (u01 rng)) * TWO_PI)"
  by (simp add: shirleyRandomDirectionInHemisphere_def advance_def Let_def split: prod.split)

lemma hemisphereDirection_NaN: "hemisphereDirection normal NaN NaN around = vec3 NaN NaN NaN"
  by (simp add: hemisphereDirection_def Let_def smulv_NaN vec3_add_NaN)

lemma shirley_t_p_negative: "shirley_t_p (Fin (1 / 4)) (Fin (1 / 32)) = Fin (- (1 / 4))"
  by (simp add: shirley_t_p_def sqrt_sixteenth)

lemma shirley_NaN:
  "fst (shirleyRandomDirectionInHemisphere replay unit_z [Fin (1 / 4), Fin (1 / 32)]) = vec3 NaN NaN NaN"
  by (simp add: shirleyRandomDirectionInHemisphere_def shirley_t_p_negative
      hemisphereDirection_NaN Let_def)

subsection \<open>The result of scattering, branch by branch\<close>

lemma scatterRay_result:
  "fst (scatterRay u01 ps isect m rng) =
     (if hasRefractive m then
        (if ratio m isect * sin_theta ps isect > Fin 1 then
           ps\<lparr>ray := (ray ps)\<lparr>origin := intersect ps isect + smulv (Fin 0.001) (surfaceNormal isect),
                               direction := dir_spec ps isect\<rparr>,
              PathSegment.color := PathSegment.color ps * Specular.color (specular m)\<rparr>
         else if choice u01 isect rng > reflectance ps isect m then
           ps\<lparr>ray := (ray ps)\<lparr>origin := intersect ps isect - smulv (Fin 0.001) (surfaceNormal isect),
                               direction := dir_refr ps isect m\<rparr>,
              PathSegment.color := PathSegment.color ps * Material.color m\<rparr>
         else
           ps\<lparr>ray := (ray ps)\<lparr>origin := intersect ps isect + smulv (Fin 0.001) (surfaceNormal isect),
                               direction := dir_spec ps isect\<rparr>,
              PathSegment.color := PathSegment.color ps * Specular.color (specular m)\<rparr>)
      else if hasReflective m \<and> choice u01 isect rng > Fin 0.2 then
        ps\<lparr>ray := (ray ps)\<lparr>origin := intersect ps isect + smulv (Fin 0.001) (surfaceNormal isect),
                            direction := dir_spec ps isect\<rparr>,
           PathSegment.color := PathSegment.color ps * vmuls (Specular.color (specular m)) (Fin 0.8)\<rparr>
      else
        ps\<lparr>ray := (ray ps)\<lparr>origin := intersect ps isect + smulv (Fin 0.001) (surfaceNormal isect),
                            direction := dir_diff u01 isect rng\<rparr>,
           PathSegment.color := PathSegment.color ps
             * vmuls (Material.color m) (if hasReflective m then Fin 0.2 else Fin 1)\<rparr>)"
  by (simp add: scatterRay_def choice_def dir_diff_def Let_def split: prod.split)

lemma scatterRay_engine:
  "snd (snd (scatterRay u01 ps isect m rng)) =
     snd (u01 (snd (shirleyRandomDirectionInHemisphere u01 (surfaceNormal isect) rng)))"
  by (simp add: scatterRay_def Let_def split: prod.split)

lemma scatterRay_intersection:
  "fst (snd (scatterRay u01 ps isect m rng)) = isect"
  by (simp add: scatterRay_def Let_def split: prod.split)

lemma choice_replay:
  "choice replay isect [d1, d2, d3] = d3"
  by (simp add: choice_def shirley_engine)

subsection \<open>Orthonormal frames and unit directions\<close>

text \<open>Facts of real algebra on three components: the cross product of two orthogonal unit
  vectors is a unit vector, and a combination of three orthonormal vectors has the squared
  length of its coefficients.\<close>

lemma cross_orthonormal:
  fixes a b c p q r :: real
  assumes "a * a + b * b + c * c = 1" and "p * p + q * q + r * r = 1"
    and "a * p + b * q + c * r = 0"
  shows "(b * r - q * c) * (b * r - q * c) + (c * p - r * a) * (c * p - r * a)
           + (a * q - p * b) * (a * q - p * b) = 1"
proof -
  have "(b * r - q * c) * (b * r - q * c) + (c * p - r * a) * (c * p - r * a)
           + (a * q - p * b) * (a * q - p * b)
        = (a * a + b * b + c * c) * (p * p + q * q + r * r)
          - (a * p + b * q + c * r) * (a * p + b * q + c * r)"
    by (simp add: algebra_simps)
  with assms show ?thesis by simp
qed

lemma combination_norm:
  fixes a b c p q r x y z al be ga :: real
  assumes "a * a + b * b + c * c = 1" and "p * p + q * q + r * r = 1"
    and "x * x + y * y + z * z = 1"
    and "a * p + b * q + c * r = 0" and "a * x + b * y + c * z = 0"
    and "p * x + q * y + r * z = 0"
  shows "(al * a + be * p + ga * x) * (al * a + be * p + ga * x)
       + (al * b + be * q + ga * y) * (al * b + be * q + ga * y)
       + (al * c + be * r + ga * z) * (al * c + be * r + ga * z)
       = al * al + be * be + ga * ga"
proof -
  have "(al * a + be * p + ga * x) * (al * a + be * p + ga * x)
       + (al * b + be * q + ga * y) * (al * b + be * q + ga * y)
       + (al * c + be * r + ga * z) * (al * c + be * r + ga * z)
      = al * al * (a * a + b * b + c * c) + be * be * (p * p + q * q + r * r)
        + ga * ga * (x * x + y * y + z * z)
        + 2 * al * be * (a * p + b * q + c * r) + 2 * al * ga * (a * x + b * y + c * z)
        + 2 * be * ga * (p * x + q * y + r * z)"
    by (simp add: algebra_simps)
  with assms show ?thesis by simp
qed

lemma combination_dot:
  fixes a b c p q r x y z al be ga :: real
  assumes "a * a + b * b + c * c = 1"
    and "a * p + b * q + c * r = 0" and "a * x + b * y + c * z = 0"
  shows "(al * a + be * p + ga * x) * a + (al * b + be * q + ga * y) * b
       + (al * c + be * r + ga * z) * c = al"
proof -
  have "(al * a + be * p + ga * x) * a + (al * b + be * q + ga * y) * b
       + (al * c + be * r + ga * z) * c
      = al * (a * a + b * b + c * c) + be * (a * p + b * q + c * r) + ga * (a * x + b * y + c * z)"
    by (simp add: algebra_simps)
  with assms show ?thesis by simp
qed

lemma normalize_finite:
  assumes "0 < x * x + y * y + z * z"
  shows "normalize (vec3 (Fin x) (Fin y) (Fin z)) =
           vec3 (Fin (x * (1 / sqrt (x * x + y * y + z * z))))
                (Fin (y * (1 / sqrt (x * x + y * y + z * z))))
                (Fin (z * (1 / sqrt (x * x + y * y + z * z))))"
proof -
  have "sqrt (x * x + y * y + z * z) \<noteq> 0" using assms by simp
  moreover have "\<not> x * x + y * y + z * z < 0" using assms by simp
  ultimately show ?thesis by (simp add: normalize_def inversesqrt_def)
qed

text \<open>The direction \<^verbatim>\<open>directionNotNormal\<close> is never parallel to a unit normal: the cross
  product the program normalises is not the zero vector.\<close>

lemma directionNotNormal_cases:
  "directionNotNormal (vec3 (Fin a) (Fin b) (Fin c)) =
     (if \<bar>a\<bar> < sqrt (1 / 3) then vec3 (Fin 1) (Fin 0) (Fin 0)
      else if \<bar>b\<bar> < sqrt (1 / 3) then vec3 (Fin 0) (Fin 1) (Fin 0)
      else vec3 (Fin 0) (Fin 0) (Fin 1))"
  by (simp add: directionNotNormal_def SQRT_OF_ONE_THIRD_def)

lemma abs_below_sqrt_third:
  fixes a :: real
  assumes "\<bar>a\<bar> < sqrt (1 / 3)"
  shows "a * a < 1 / 3"
proof -
  have "\<bar>a\<bar> * \<bar>a\<bar> < sqrt (1 / 3) * sqrt (1 / 3)"
    using assms by (intro mult_strict_mono') simp_all
  then show ?thesis by (simp add: abs_mult_self_eq)
qed

lemma directionNotNormal_not_parallel:
  assumes "a * a + b * b + c * c = 1"
  obtains d e f where "directionNotNormal (vec3 (Fin a) (Fin b) (Fin c)) = vec3 (Fin d) (Fin e) (Fin f)"
    and "0 < (b * f - e * c) * (b * f - e * c) + (c * d - f * a) * (c * d - f * a)
              + (a * e - d * b) * (a * e - d * b)"
proof (cases "\<bar>a\<bar> < sqrt (1 / 3)")
  case True
  then have "a * a < 1 / 3" by (rule abs_below_sqrt_third)
  with assms have "0 < b * b + c * c" by simp
  then have "0 < (b * 0 - 0 * c) * (b * 0 - 0 * c) + (c * 1 - 0 * a) * (c * 1 - 0 * a)
              + (a * 0 - 1 * b) * (a * 0 - 1 * b)"
    by (simp add: algebra_simps)
  moreover from True have "directionNotNormal (vec3 (Fin a) (Fin b) (Fin c)) = vec3 (Fin 1) (Fin 0) (Fin 0)"
    by (simp add: directionNotNormal_cases)
  ultimately show ?thesis by (rule that [rotated])
next
  case False
  then have "a \<noteq> 0" by auto
  then have pos: "0 < a * a" using not_real_square_gt_zero [of a] by blast
  show ?thesis
  proof (cases "\<bar>b\<bar> < sqrt (1 / 3)")
    case True
    have "0 \<le> c * c" by simp
    with pos have "0 < (b * 0 - 1 * c) * (b * 0 - 1 * c) + (c * 0 - 0 * a) * (c * 0 - 0 * a)
              + (a * 1 - 0 * b) * (a * 1 - 0 * b)"
      by (simp add: add_nonneg_pos)
    moreover from True False
    have "directionNotNormal (vec3 (Fin a) (Fin b) (Fin c)) = vec3 (Fin 0) (Fin 1) (Fin 0)"
      by (simp add: directionNotNormal_cases)
    ultimately show ?thesis by (rule that [rotated])
  next
    case nb: False
    have "0 \<le> b * b" by simp
    with pos have "0 < (b * 1 - 0 * c) * (b * 1 - 0 * c) + (c * 0 - 1 * a) * (c * 0 - 1 * a)
              + (a * 0 - 0 * b) * (a * 0 - 0 * b)"
      by (simp add: add_nonneg_pos)
    moreover from nb False
    have "directionNotNormal (vec3 (Fin a) (Fin b) (Fin c)) = vec3 (Fin 0) (Fin 0) (Fin 1)"
      by (simp add: directionNotNormal_cases)
    ultimately show ?thesis by (rule that [rotated])
  qed
qed

text \<open>For a unit normal and finite \<open>up\<close>, \<open>over\<close> and \<open>around\<close>, the returned combination is
  finite, its squared length is \<open>up\<^sup>2 + over\<^sup>2\<close> and its dot product with the normal is
  \<open>up\<close>.\<close>

lemma hemisphereDirection_finite:
  assumes unit: "a * a + b * b + c * c = 1"
  obtains X Y Z where
    "hemisphereDirection (vec3 (Fin a) (Fin b) (Fin c)) (Fin up) (Fin ov) (Fin ar)
       = vec3 (Fin X) (Fin Y) (Fin Z)"
    and "X * X + Y * Y + Z * Z = up * up + ov * ov"
    and "X * a + Y * b + Z * c = up"
proof -
  obtain d e f where dnn: "directionNotNormal (vec3 (Fin a) (Fin b) (Fin c)) = vec3 (Fin d) (Fin e) (Fin f)"
    and pos: "0 < (b * f - e * c) * (b * f - e * c) + (c * d - f * a) * (c * d - f * a)
              + (a * e - d * b) * (a * e - d * b)"
    using directionNotNormal_not_parallel [OF unit] by blast
  define w1 w2 w3 where "w1 = b * f - e * c" and "w2 = c * d - f * a" and "w3 = a * e - d * b"
  define S where "S = w1 * w1 + w2 * w2 + w3 * w3"
  define k where "k = 1 / sqrt S"
  define p q r where "p = w1 * k" and "q = w2 * k" and "r = w3 * k"
  have S: "0 < S" using pos by (simp add: S_def w1_def w2_def w3_def)
  have kk: "k * k = 1 / S" using S by (simp add: k_def)
  have cr: "cross (vec3 (Fin a) (Fin b) (Fin c)) (vec3 (Fin d) (Fin e) (Fin f))
              = vec3 (Fin w1) (Fin w2) (Fin w3)"
    by (simp add: w1_def w2_def w3_def)
  have p1: "normalize (cross (vec3 (Fin a) (Fin b) (Fin c)) (vec3 (Fin d) (Fin e) (Fin f)))
              = vec3 (Fin p) (Fin q) (Fin r)"
    unfolding cr using normalize_finite [of w1 w2 w3] S
    by (simp add: S_def k_def p_def q_def r_def)
  have "p * p + q * q + r * r = S * (k * k)"
    by (simp add: p_def q_def r_def S_def algebra_simps)
  with S have pp: "p * p + q * q + r * r = 1" by (simp add: kk)
  have "a * w1 + b * w2 + c * w3 = 0"
    by (simp add: w1_def w2_def w3_def algebra_simps)
  moreover have "a * p + b * q + c * r = (a * w1 + b * w2 + c * w3) * k"
    by (simp add: p_def q_def r_def algebra_simps)
  ultimately have np: "a * p + b * q + c * r = 0" by simp
  define x y z where "x = b * r - q * c" and "y = c * p - r * a" and "z = a * q - p * b"
  have xx: "x * x + y * y + z * z = 1"
    unfolding x_def y_def z_def using unit pp np by (rule cross_orthonormal)
  have cr2: "cross (vec3 (Fin a) (Fin b) (Fin c)) (vec3 (Fin p) (Fin q) (Fin r))
              = vec3 (Fin x) (Fin y) (Fin z)"
    by (simp add: x_def y_def z_def)
  have p2: "normalize (cross (vec3 (Fin a) (Fin b) (Fin c)) (vec3 (Fin p) (Fin q) (Fin r)))
              = vec3 (Fin x) (Fin y) (Fin z)"
    unfolding cr2 using normalize_finite [of x y z] by (simp add: xx)
  have nx: "a * x + b * y + c * z = 0"
    by (simp add: x_def y_def z_def algebra_simps)
  have px: "p * x + q * y + r * z = 0"
    by (simp add: x_def y_def z_def algebra_simps)
  define be ga where "be = cos ar * ov" and "ga = sin ar * ov"
  have bg: "be * be + ga * ga = ov * ov"
  proof -
    have cs: "cos ar * cos ar + sin ar * sin ar = 1"
      using sin_cos_squared_add2 [of ar] by (simp add: power2_eq_square)
    have "be * be + ga * ga = (cos ar * cos ar + sin ar * sin ar) * (ov * ov)"
      unfolding be_def ga_def by (simp only: algebra_simps)
    then show ?thesis unfolding cs by simp
  qed
  have h: "hemisphereDirection (vec3 (Fin a) (Fin b) (Fin c)) (Fin up) (Fin ov) (Fin ar)
       = vec3 (Fin (up * a + be * p + ga * x)) (Fin (up * b + be * q + ga * y))
              (Fin (up * c + be * r + ga * z))"
    unfolding hemisphereDirection_def Let_def dnn p1 p2 by (simp add: be_def ga_def)
  have n: "(up * a + be * p + ga * x) * (up * a + be * p + ga * x)
         + (up * b + be * q + ga * y) * (up * b + be * q + ga * y)
         + (up * c + be * r + ga * z) * (up * c + be * r + ga * z) = up * up + ov * ov"
    using combination_norm [OF unit pp xx np nx px, of up be ga] bg by simp
  have dt: "(up * a + be * p + ga * x) * a + (up * b + be * q + ga * y) * b
         + (up * c + be * r + ga * z) * c = up"
    using unit np nx by (rule combination_dot)
  from h n dt show ?thesis by (rule that)
qed

text \<open>The baseline sampler returns a unit direction in the hemisphere of the normal for
  every unit normal and every pair of draws in \<open>[0, 1)\<close>.  The stratified sampler does so
  when the remapped second coordinate lies in \<open>[0, 1]\<close>, and returns three
  not-a-number components when it does not.\<close>

lemma hemisphereDirection_unit:
  assumes unit: "a * a + b * b + c * c = 1" and "0 \<le> w" and "w \<le> 1"
  shows "vlength (hemisphereDirection (vec3 (Fin a) (Fin b) (Fin c))
           (fsqrt (Fin w)) (fsqrt (Fin 1 - fsqrt (Fin w) * fsqrt (Fin w))) (Fin ar)) = Fin 1"
    and "dot (hemisphereDirection (vec3 (Fin a) (Fin b) (Fin c))
           (fsqrt (Fin w)) (fsqrt (Fin 1 - fsqrt (Fin w) * fsqrt (Fin w))) (Fin ar))
           (vec3 (Fin a) (Fin b) (Fin c)) = Fin (sqrt w)"
proof -
  have up: "fsqrt (Fin w) = Fin (sqrt w)" using assms by simp
  have ov: "fsqrt (Fin 1 - Fin (sqrt w) * Fin (sqrt w)) = Fin (sqrt (1 - w))"
    using assms by (simp add: abs_of_nonneg)
  obtain X Y Z where
    h: "hemisphereDirection (vec3 (Fin a) (Fin b) (Fin c)) (Fin (sqrt w)) (Fin (sqrt (1 - w))) (Fin ar)
       = vec3 (Fin X) (Fin Y) (Fin Z)"
    and n: "X * X + Y * Y + Z * Z = sqrt w * sqrt w + sqrt (1 - w) * sqrt (1 - w)"
    and d: "X * a + Y * b + Z * c = sqrt w"
    using hemisphereDirection_finite [OF unit] by blast
  from n assms have n1: "X * X + Y * Y + Z * Z = 1" by (simp add: abs_of_nonneg)
  show "vlength (hemisphereDirection (vec3 (Fin a) (Fin b) (Fin c))
           (fsqrt (Fin w)) (fsqrt (Fin 1 - fsqrt (Fin w) * fsqrt (Fin w))) (Fin ar)) = Fin 1"
    unfolding up ov h by (simp add: vlength_def n1)
  show "dot (hemisphereDirection (vec3 (Fin a) (Fin b) (Fin c))
           (fsqrt (Fin w)) (fsqrt (Fin 1 - fsqrt (Fin w) * fsqrt (Fin w))) (Fin ar))
           (vec3 (Fin a) (Fin b) (Fin c)) = Fin (sqrt w)"
    unfolding up ov h by (simp add: d)
qed

lemma baseline_direction_unit:
  assumes "a * a + b * b + c * c = 1"
    and "u01 rng = (Fin u, rng1)" and "u01 rng1 = (Fin v, rng2)" and "0 \<le> u" and "u < 1"
  shows "vlength (fst (calculateRandomDirectionInHemisphere u01 (vec3 (Fin a) (Fin b) (Fin c)) rng))
           = Fin 1"
    and "dot (fst (calculateRandomDirectionInHemisphere u01 (vec3 (Fin a) (Fin b) (Fin c)) rng))
           (vec3 (Fin a) (Fin b) (Fin c)) \<ge> Fin 0"
proof -
  have w: "u \<le> 1" using assms by simp
  have e: "fst (calculateRandomDirectionInHemisphere u01 (vec3 (Fin a) (Fin b) (Fin c)) rng) =
      hemisphereDirection (vec3 (Fin a) (Fin b) (Fin c))
        (fsqrt (Fin u)) (fsqrt (Fin 1 - fsqrt (Fin u) * fsqrt (Fin u))) (Fin (v * (2 * pi)))"
    using assms(2,3) by (simp add: calculateRandomDirectionInHemisphere_def Let_def TWO_PI_def)
  show "vlength (fst (calculateRandomDirectionInHemisphere u01 (vec3 (Fin a) (Fin b) (Fin c)) rng))
           = Fin 1"
    unfolding e using assms(1,4) w by (rule hemisphereDirection_unit)
  have "dot (fst (calculateRandomDirectionInHemisphere u01 (vec3 (Fin a) (Fin b) (Fin c)) rng))
           (vec3 (Fin a) (Fin b) (Fin c)) = Fin (sqrt u)"
    unfolding e using assms(1,4) w by (rule hemisphereDirection_unit)
  then show "dot (fst (calculateRandomDirectionInHemisphere u01 (vec3 (Fin a) (Fin b) (Fin c)) rng))
           (vec3 (Fin a) (Fin b) (Fin c)) \<ge> Fin 0"
    using assms(4) by simp
qed

lemma vec3_NaN_add: "vec3 NaN NaN NaN + v = vec3 NaN NaN NaN"
  by (cases v) simp

lemma hemisphereDirection_over_NaN: "hemisphereDirection normal up NaN around = vec3 NaN NaN NaN"
  by (simp add: hemisphereDirection_def Let_def smulv_NaN vec3_add_NaN)

lemma shirley_direction_by_range:
  assumes "a * a + b * b + c * c = 1"
    and "u01 rng = (Fin s, rng1)" and "u01 rng1 = (Fin v, rng2)" and "0 \<le> s" and "s < 1"
    and "shirley_t_p (Fin s) (Fin v) = Fin w"
  shows "0 \<le> w \<and> w \<le> 1 \<longrightarrow>
           vlength (fst (shirleyRandomDirectionInHemisphere u01 (vec3 (Fin a) (Fin b) (Fin c)) rng))
             = Fin 1"
    and "w < 0 \<or> 1 < w \<longrightarrow>
           fst (shirleyRandomDirectionInHemisphere u01 (vec3 (Fin a) (Fin b) (Fin c)) rng)
             = vec3 NaN NaN NaN"
proof -
  have "\<exists>ar. shirley_s_p (Fin s) * TWO_PI = Fin ar"
    using assms(4,5) by (simp add: shirley_s_p_def TWO_PI_def)
  then obtain ar where ar: "shirley_s_p (Fin s) * TWO_PI = Fin ar" ..
  have e: "fst (shirleyRandomDirectionInHemisphere u01 (vec3 (Fin a) (Fin b) (Fin c)) rng) =
      hemisphereDirection (vec3 (Fin a) (Fin b) (Fin c))
        (fsqrt (Fin w)) (fsqrt (Fin 1 - fsqrt (Fin w) * fsqrt (Fin w))) (Fin ar)"
    using assms(2,3,6) ar by (simp add: shirleyRandomDirectionInHemisphere_def Let_def)
  show "0 \<le> w \<and> w \<le> 1 \<longrightarrow>
           vlength (fst (shirleyRandomDirectionInHemisphere u01 (vec3 (Fin a) (Fin b) (Fin c)) rng))
             = Fin 1"
    unfolding e using hemisphereDirection_unit(1) [OF assms(1)] by blast
  show "w < 0 \<or> 1 < w \<longrightarrow>
           fst (shirleyRandomDirectionInHemisphere u01 (vec3 (Fin a) (Fin b) (Fin c)) rng)
             = vec3 NaN NaN NaN"
    unfolding e by (auto simp add: hemisphereDirection_NaN hemisphereDirection_over_NaN)
qed

text \<open>For a unit ray direction and a unit normal the reflection is a unit vector, and
  \<^verbatim>\<open>dir_spec\<close>, its normalisation, is the mirror reflection itself.\<close>

lemma reflect_unit:
  fixes a b c d1 d2 d3 :: real
  assumes "a * a + b * b + c * c = 1" and "d1 * d1 + d2 * d2 + d3 * d3 = 1"
  shows "(d1 - a * (a * d1 + b * d2 + c * d3) * 2) * (d1 - a * (a * d1 + b * d2 + c * d3) * 2)
       + (d2 - b * (a * d1 + b * d2 + c * d3) * 2) * (d2 - b * (a * d1 + b * d2 + c * d3) * 2)
       + (d3 - c * (a * d1 + b * d2 + c * d3) * 2) * (d3 - c * (a * d1 + b * d2 + c * d3) * 2) = 1"
proof -
  define k where "k = a * d1 + b * d2 + c * d3"
  have "(d1 - a * k * 2) * (d1 - a * k * 2) + (d2 - b * k * 2) * (d2 - b * k * 2)
       + (d3 - c * k * 2) * (d3 - c * k * 2)
      = (d1 * d1 + d2 * d2 + d3 * d3) - 4 * k * (a * d1 + b * d2 + c * d3)
        + 4 * k * k * (a * a + b * b + c * c)"
    by (simp add: algebra_simps)
  also have "\<dots> = 1" unfolding assms by (simp add: k_def)
  finally show ?thesis unfolding k_def .
qed

lemma dir_spec_is_reflection:
  assumes "direction (ray ps) = vec3 (Fin d1) (Fin d2) (Fin d3)"
    and "d1 * d1 + d2 * d2 + d3 * d3 = 1"
    and "surfaceNormal isect = vec3 (Fin a) (Fin b) (Fin c)"
    and "a * a + b * b + c * c = 1"
  shows "dir_spec ps isect = reflect (direction (ray ps)) (surfaceNormal isect)"
proof -
  define k where "k = a * d1 + b * d2 + c * d3"
  have r: "reflect (direction (ray ps)) (surfaceNormal isect) =
      vec3 (Fin (d1 - a * k * 2)) (Fin (d2 - b * k * 2)) (Fin (d3 - c * k * 2))"
    by (simp add: reflect_def assms(1,3) k_def)
  have u: "(d1 - a * k * 2) * (d1 - a * k * 2) + (d2 - b * k * 2) * (d2 - b * k * 2)
       + (d3 - c * k * 2) * (d3 - c * k * 2) = 1"
    unfolding k_def using assms(4,2) by (rule reflect_unit)
  show ?thesis
    unfolding dir_spec_def r using normalize_finite [of "d1 - a * k * 2" "d2 - b * k * 2" "d3 - c * k * 2"]
    by (simp add: u)
qed


subsection \<open>The local values of scattering on valid inputs\<close>

text \<open>For a finite unit ray direction \<open>(d1, d2, d3)\<close>, a finite unit normal \<open>(a, b, c)\<close> and
  a positive finite index of refraction, the local values of \<^verbatim>\<open>scatterRay\<close> as real
  expressions: the dot product of two unit vectors lies between \<open>-1\<close> and \<open>1\<close>, so the sine
  is a number; without total internal reflection the \<open>k\<close> of \<^verbatim>\<open>refract\<close> is not negative,
  so the refraction vector is the one of the formula, not the zero vector.\<close>

lemma dot_unit_le_one:
  fixes a b c d1 d2 d3 :: real
  assumes "a * a + b * b + c * c = 1" and "d1 * d1 + d2 * d2 + d3 * d3 = 1"
  shows "(a * d1 + b * d2 + c * d3) * (a * d1 + b * d2 + c * d3) \<le> 1"
proof -
  define Q where "Q = (a * d1 + b * d2 + c * d3) * (a * d1 + b * d2 + c * d3)"
  define C where "C = (b * d3 - d2 * c) * (b * d3 - d2 * c) + (c * d1 - d3 * a) * (c * d1 - d3 * a)
          + (a * d2 - d1 * b) * (a * d2 - d1 * b)"
  have "(a * a + b * b + c * c) * (d1 * d1 + d2 * d2 + d3 * d3) - Q = C"
    unfolding Q_def C_def by (simp add: algebra_simps)
  then have "1 - Q = C" unfolding assms by simp
  moreover have "0 \<le> C"
    unfolding C_def by (intro add_nonneg_nonneg) simp_all
  ultimately have "Q \<le> 1" by linarith
  then show ?thesis unfolding Q_def .
qed

lemma valid_cos_theta:
  assumes "direction (ray ps) = vec3 (Fin d1) (Fin d2) (Fin d3)"
    and "surfaceNormal isect = vec3 (Fin a) (Fin b) (Fin c)"
  shows "cos_theta ps isect = Fin (- (a * d1 + b * d2 + c * d3))"
  by (simp add: cos_theta_def assms algebra_simps)

lemma valid_sin_theta:
  assumes "direction (ray ps) = vec3 (Fin d1) (Fin d2) (Fin d3)"
    and "d1 * d1 + d2 * d2 + d3 * d3 = 1"
    and "surfaceNormal isect = vec3 (Fin a) (Fin b) (Fin c)"
    and "a * a + b * b + c * c = 1"
  shows "sin_theta ps isect
           = Fin (sqrt (1 - (a * d1 + b * d2 + c * d3) * (a * d1 + b * d2 + c * d3)))"
proof -
  define dn where "dn = a * d1 + b * d2 + c * d3"
  have c: "cos_theta ps isect = Fin (- dn)"
    unfolding dn_def using assms(1,3) by (rule valid_cos_theta)
  have "\<not> 1 - dn * dn < 0"
    using dot_unit_le_one [OF assms(4,2)] by (simp add: dn_def)
  then have "sin_theta ps isect = Fin (sqrt (1 - dn * dn))"
    unfolding sin_theta_def c by simp
  then show ?thesis unfolding dn_def .
qed

lemma valid_ratio:
  assumes "indexOfRefraction m = Fin i" and "0 < i"
  shows "ratio m isect = Fin (if outside isect then i else 1 / i)"
  using assms by (simp add: ratio_def)


lemma valid_dir_spec:
  assumes "direction (ray ps) = vec3 (Fin d1) (Fin d2) (Fin d3)"
    and "d1 * d1 + d2 * d2 + d3 * d3 = 1"
    and "surfaceNormal isect = vec3 (Fin a) (Fin b) (Fin c)"
    and "a * a + b * b + c * c = 1"
  shows "dir_spec ps isect =
           vec3 (Fin (d1 - 2 * (a * d1 + b * d2 + c * d3) * a))
                (Fin (d2 - 2 * (a * d1 + b * d2 + c * d3) * b))
                (Fin (d3 - 2 * (a * d1 + b * d2 + c * d3) * c))"
  unfolding dir_spec_is_reflection [OF assms] by (simp add: reflect_def assms(1,3) algebra_simps)



lemma choice_third:
  "choice u01 isect rng = fst (u01 (advance u01 (advance u01 rng)))"
  by (simp add: choice_def shirley_engine advance_def)

lemma sqrt_16_25: "sqrt (16 / 25) = 4 / 5"
  by (rule real_sqrt_unique) (simp_all add: power2_eq_square)

lemma pure_diffuse_colour_origin:
  assumes "\<not> hasReflective m" and "\<not> hasRefractive m"
  shows "PathSegment.color (fst (scatterRay u01 ps isect m rng)) =
           PathSegment.color ps * vmuls (Material.color m) (Fin 1)"
    and "origin (ray (fst (scatterRay u01 ps isect m rng))) =
           (origin (ray ps) + smulv (t isect) (direction (ray ps)))
             + smulv (Fin 0.001) (surfaceNormal isect)"
  using assms by (simp_all add: scatterRay_result intersect_def)

lemma floor_dir_diff_NaN:
  "dir_diff replay floor_hit (Fin (1 / 4) # Fin (1 / 32) # ds) = vec3 NaN NaN NaN"
  by (simp add: dir_diff_def floor_hit_def shirleyRandomDirectionInHemisphere_def
      shirley_t_p_negative hemisphereDirection_NaN Let_def)

lemma remap_three_quarters:
  "shirley_t_p (Fin (3 / 4)) (Fin (1 / 2)) = Fin (1 / 2)"
  "shirley_s_p (Fin (3 / 4)) = Fin (3 / 2 - sqrt (1 / 2))"
  by (simp_all add: shirley_t_p_def shirley_s_p_def)


section \<open>The claims\<close>

text \<open>Claim C1 says that in the stratified sampler the remapped second coordinate is
  \<open>-0.5 + sqrt(2t)\<close> when \<open>t < 0.5\<close> and \<open>1.5 - sqrt(2 - 2t)\<close> otherwise, the test
  depending on \<open>t\<close> alone.  Line 51 of the program tests \<open>s\<close> instead.  At \<open>s = 0.25\<close>,
  \<open>t = 0.875\<close> the program computes \<open>-0.5 + sqrt(1.75)\<close>, the remapping of the spec gives
  \<open>1\<close>, and with the same \<open>t\<close> and \<open>s = 0.75\<close> the program computes another value.\<close>

theorem shirley_t_p_tests_s:
  "shirley_t_p (Fin 0.25) (Fin 0.875) = Fin (sqrt (7 / 4) - 1 / 2)
   \<and> concentric_remap_spec (Fin 0.875) = Fin 1
   \<and> shirley_t_p (Fin 0.25) (Fin 0.875) \<noteq> concentric_remap_spec (Fin 0.875)
   \<and> shirley_t_p (Fin 0.25) (Fin 0.875) \<noteq> shirley_t_p (Fin 0.75) (Fin 0.875)"
proof -
  have a: "shirley_t_p (Fin 0.25) (Fin 0.875) = Fin (sqrt (7 / 4) - 1 / 2)"
    by (simp add: shirley_t_p_def)
  have b: "concentric_remap_spec (Fin 0.875) = Fin 1"
    by (simp add: concentric_remap_spec_def sqrt_quarter)
  have c: "shirley_t_p (Fin 0.75) (Fin 0.875) = Fin 1"
    by (simp add: shirley_t_p_def sqrt_quarter)
  have d: "sqrt (7 / 4) - 1 / 2 \<noteq> 1"
    using sqrt_seven_quarters by simp
  show ?thesis unfolding a b c using d by simp
qed

text \<open>Claim C2 says that the direction a hemisphere sampler returns has length one.  With
  the draws \<open>s = 1/4\<close> and \<open>t = 1/32\<close> the stratified sampler remaps the second coordinate to
  \<open>-1/4\<close>, takes the square root of this negative number, and returns a direction whose
  three components are not numbers; its length is not a number and not within \<open>10\<^sup>-\<^sup>5\<close>
  of one.\<close>

theorem shirley_direction_not_unit:
  "fst (shirleyRandomDirectionInHemisphere replay unit_z [Fin (1 / 4), Fin (1 / 32)]) = vec3 NaN NaN NaN
   \<and> vlength (fst (shirleyRandomDirectionInHemisphere replay unit_z [Fin (1 / 4), Fin (1 / 32)])) = NaN
   \<and> \<not> \<bar>vlength (fst (shirleyRandomDirectionInHemisphere replay unit_z [Fin (1 / 4), Fin (1 / 32)]))
          - Fin 1\<bar> \<le> Fin 0.00001"
  by (simp add: shirley_NaN vlength_def)

text \<open>Claim C3 says that the dot product of the returned direction with the normal is not
  negative.  With the draws of the previous run of the stratified sampler the dot product
  is not a number, and the comparison \<open>dot(d, normal) \<ge> 0\<close> is false.\<close>

theorem shirley_direction_not_in_hemisphere:
  "shirley_t_p (Fin (1 / 4)) (Fin (1 / 32)) = Fin (- (1 / 4))
   \<and> dot (fst (shirleyRandomDirectionInHemisphere replay unit_z [Fin (1 / 4), Fin (1 / 32)])) unit_z = NaN
   \<and> \<not> dot (fst (shirleyRandomDirectionInHemisphere replay unit_z [Fin (1 / 4), Fin (1 / 32)])) unit_z
         \<ge> Fin 0"
  by (simp add: shirley_NaN shirley_t_p_negative) (simp add: unit_z_def)

text \<open>Claim C4: for a refractive material and valid inputs (a unit ray direction \<open>d\<close>, a unit
  normal \<open>n\<close>, a positive index of refraction), with \<open>eta\<close> the index of refraction when the
  intersection is an outside one and its reciprocal otherwise, and the sine
  \<open>sqrt(1 - (n \<cdot> d)\<^sup>2)\<close> of the angle of incidence: when \<open>eta\<close> times the sine exceeds one,
  the call sets the ray direction to the mirror reflection \<open>d - 2 (n \<cdot> d) n\<close> and multiplies
  the colour by the specular colour; the origin is the hit point plus \<open>0.001\<close> times the
  normal.  This holds for every distribution and engine state, so for every drawn choice.\<close>

theorem scatter_total_internal_reflection:
  assumes "hasRefractive m"
    and "direction (ray ps) = vec3 (Fin d1) (Fin d2) (Fin d3)"
    and "d1 * d1 + d2 * d2 + d3 * d3 = 1"
    and "surfaceNormal isect = vec3 (Fin a) (Fin b) (Fin c)"
    and "a * a + b * b + c * c = 1"
    and "indexOfRefraction m = Fin i" and "0 < i"
    and "eta = (if outside isect then i else 1 / i)"
    and "dn = a * d1 + b * d2 + c * d3"
    and "eta * sqrt (1 - dn * dn) > 1"
  shows "fst (scatterRay u01 ps isect m rng) =
           ps\<lparr>ray := (ray ps)
                \<lparr>origin := origin (ray ps) + smulv (t isect) (direction (ray ps))
                            + smulv (Fin 0.001) (surfaceNormal isect),
                 direction := vec3 (Fin (d1 - 2 * dn * a)) (Fin (d2 - 2 * dn * b))
                                   (Fin (d3 - 2 * dn * c))\<rparr>,
              PathSegment.color := PathSegment.color ps * Specular.color (specular m)\<rparr>"
proof -
  have q: "ratio m isect = Fin eta"
    unfolding assms(8) using assms(6,7) by (rule valid_ratio)
  have s: "sin_theta ps isect = Fin (sqrt (1 - dn * dn))"
    unfolding assms(9) using assms(2,3,4,5) by (rule valid_sin_theta)
  have tir: "ratio m isect * sin_theta ps isect > Fin 1"
    unfolding q s using assms(10) by simp
  have d: "dir_spec ps isect =
      vec3 (Fin (d1 - 2 * dn * a)) (Fin (d2 - 2 * dn * b)) (Fin (d3 - 2 * dn * c))"
    unfolding assms(9) using assms(2,3,4,5) by (rule valid_dir_spec)
  show ?thesis
    using assms(1) tir by (simp add: scatterRay_result d intersect_def)
qed

theorem scatter_total_internal_reflection_witness:
  "hasRefractive glass
   \<and> direction (ray oblique_segment) = vec3 (Fin 0.8) (Fin 0) (Fin (- 0.6))
   \<and> (0.8::real) * 0.8 + 0 * 0 + (- 0.6) * (- 0.6) = 1
   \<and> surfaceNormal floor_hit = vec3 (Fin 0) (Fin 0) (Fin 1)
   \<and> (0::real) * 0 + 0 * 0 + 1 * 1 = 1
   \<and> indexOfRefraction glass = Fin 1.5 \<and> (0::real) < 1.5
   \<and> (1.5::real) = (if outside floor_hit then 1.5 else 1 / 1.5)
   \<and> (- 0.6::real) = 0 * 0.8 + 0 * 0 + 1 * (- 0.6)
   \<and> (1.5::real) * sqrt (1 - (- 0.6) * (- 0.6)) > 1
   \<and> fst (scatterRay replay oblique_segment floor_hit glass [Fin 0.25, Fin 0.5, Fin 0.75]) =
       \<lparr>ray = \<lparr>origin = vec3 (Fin 0) (Fin 0) (Fin 0.001),
               direction = vec3 (Fin 0.8) (Fin 0) (Fin 0.6)\<rparr>,
        PathSegment.color = white, pixelIndex = 7, remainingBounces = 3\<rparr>"
proof -
  have h1: "hasRefractive glass" by (simp add: glass_def)
  have h2: "direction (ray oblique_segment) = vec3 (Fin 0.8) (Fin 0) (Fin (- 0.6))"
    by (simp add: oblique_segment_def)
  have h3: "(0.8::real) * 0.8 + 0 * 0 + (- 0.6) * (- 0.6) = 1" by simp
  have h4: "surfaceNormal floor_hit = vec3 (Fin 0) (Fin 0) (Fin 1)"
    by (simp add: floor_hit_def unit_z_def)
  have h5: "(0::real) * 0 + 0 * 0 + 1 * 1 = 1" by simp
  have h6: "indexOfRefraction glass = Fin 1.5" by (simp add: glass_def)
  have h7: "(0::real) < 1.5" by simp
  have h8: "(1.5::real) = (if outside floor_hit then 1.5 else 1 / 1.5)"
    by (simp add: floor_hit_def)
  have h9: "(- 0.6::real) = 0 * 0.8 + 0 * 0 + 1 * (- 0.6)" by simp
  have h10: "(1.5::real) * sqrt (1 - (- 0.6) * (- 0.6)) > 1"
    by (simp add: sqrt_16_25)
  have r: "oblique_segment\<lparr>ray := (ray oblique_segment)
                \<lparr>origin := origin (ray oblique_segment)
                              + smulv (t floor_hit) (direction (ray oblique_segment))
                              + smulv (Fin 0.001) (surfaceNormal floor_hit),
                 direction := vec3 (Fin (0.8 - 2 * (- 0.6) * 0)) (Fin (0 - 2 * (- 0.6) * 0))
                                   (Fin (- 0.6 - 2 * (- 0.6) * 1))\<rparr>,
              PathSegment.color := PathSegment.color oblique_segment * Specular.color (specular glass)\<rparr>
     = \<lparr>ray = \<lparr>origin = vec3 (Fin 0) (Fin 0) (Fin 0.001),
               direction = vec3 (Fin 0.8) (Fin 0) (Fin 0.6)\<rparr>,
        PathSegment.color = white, pixelIndex = 7, remainingBounces = 3\<rparr>"
    by (simp add: oblique_segment_def floor_hit_def glass_def unit_z_def white_def)
  show ?thesis
    using h1 h2 h3 h4 h5 h6 h7 h8 h9 h10
      scatter_total_internal_reflection [OF h1 h2 h3 h4 h5 h6 h7 h8 h9 h10, of replay
        "[Fin 0.25, Fin 0.5, Fin 0.75]"]
    unfolding r by blast
qed



text \<open>Claim C6 says that a reflective material that is not refractive gets, on the branch
  that is not the specular one, a cosine-weighted hemisphere sample as its direction.
  With the drawn values \<open>1/4\<close>, \<open>1/32\<close> and \<open>1/8\<close> the choice \<open>1/8\<close> does not exceed
  \<open>0.2\<close>, the colour is multiplied by the material colour times \<open>0.2\<close>, and the direction the
  call sets is the one the stratified sampler returns for the first two values: its three
  components are not numbers, its dot product with the normal is not at least zero and its
  length is not one.\<close>

theorem scatter_reflective_diffuse_direction_NaN:
  "hasReflective mirror \<and> \<not> hasRefractive mirror
   \<and> choice replay floor_hit [Fin (1 / 4), Fin (1 / 32), Fin (1 / 8)] = Fin (1 / 8)
   \<and> \<not> Fin (1 / 8) > Fin 0.2
   \<and> fst (scatterRay replay falling_segment floor_hit mirror [Fin (1 / 4), Fin (1 / 32), Fin (1 / 8)]) =
       \<lparr>ray = \<lparr>origin = vec3 (Fin 0) (Fin 0) (Fin 0.001), direction = vec3 NaN NaN NaN\<rparr>,
        PathSegment.color = vec3 (Fin 0.2) (Fin 0.2) (Fin 0.2), pixelIndex = 7, remainingBounces = 3\<rparr>
   \<and> \<not> dot (direction (ray (fst (scatterRay replay falling_segment floor_hit mirror
            [Fin (1 / 4), Fin (1 / 32), Fin (1 / 8)])))) (surfaceNormal floor_hit) \<ge> Fin 0
   \<and> vlength (direction (ray (fst (scatterRay replay falling_segment floor_hit mirror
            [Fin (1 / 4), Fin (1 / 32), Fin (1 / 8)])))) \<noteq> Fin 1"
proof -
  have r: "fst (scatterRay replay falling_segment floor_hit mirror [Fin (1 / 4), Fin (1 / 32), Fin (1 / 8)]) =
       \<lparr>ray = \<lparr>origin = vec3 (Fin 0) (Fin 0) (Fin 0.001), direction = vec3 NaN NaN NaN\<rparr>,
        PathSegment.color = vec3 (Fin 0.2) (Fin 0.2) (Fin 0.2), pixelIndex = 7, remainingBounces = 3\<rparr>"
    by (simp add: scatterRay_result choice_replay floor_dir_diff_NaN intersect_def)
      (simp add: mirror_def falling_segment_def white_def intersect_def floor_hit_def unit_z_def)
  show ?thesis
    unfolding r by (simp add: choice_replay vlength_def) (simp add: mirror_def floor_hit_def unit_z_def)
qed

text \<open>Claim C7 says that on each of the two branches of a reflective material the scalar
  factor applied to the colour is one minus the probability of that branch.  On the
  specular branch, taken for a choice in the interval from \<open>0.2\<close> to \<open>1\<close>, the factor is
  \<open>0.8\<close>, and one minus the probability of the branch is \<open>0.2\<close>: with a white material and
  a white path segment the colour after the call is \<open>(0.8, 0.8, 0.8)\<close>, not
  \<open>(0.2, 0.2, 0.2)\<close>.\<close>

theorem scatter_scale_complement_counterexample:
  "hasReflective mirror \<and> \<not> hasRefractive mirror
   \<and> choice replay floor_hit [Fin 0.25, Fin 0.5, Fin 0.5] > Fin 0.2
   \<and> PathSegment.color
        (fst (scatterRay replay falling_segment floor_hit mirror [Fin 0.25, Fin 0.5, Fin 0.5]))
      = vec3 (Fin 0.8) (Fin 0.8) (Fin 0.8)
   \<and> PathSegment.color falling_segment
        * vmuls (Specular.color (specular mirror)) (Fin (1 - interval_prob 0.2 1))
      = vec3 (Fin 0.2) (Fin 0.2) (Fin 0.2)
   \<and> PathSegment.color
        (fst (scatterRay replay falling_segment floor_hit mirror [Fin 0.25, Fin 0.5, Fin 0.5]))
      \<noteq> PathSegment.color falling_segment
        * vmuls (Specular.color (specular mirror)) (Fin (1 - interval_prob 0.2 1))"
  by (simp add: scatterRay_result choice_replay)
    (simp add: mirror_def falling_segment_def white_def interval_prob_def)

text \<open>Claim C7 as amended: on each of the two branches the scalar factor applied to the
  colour equals the probability of that branch itself, \<open>0.8\<close> on the specular branch
  (a choice in the interval from \<open>0.2\<close> to \<open>1\<close>) and \<open>0.2\<close> on the diffuse branch (a choice
  in the interval from \<open>0\<close> to \<open>0.2\<close>); it is one minus the probability of the other branch.\<close>

theorem scatter_scale_is_branch_probability:
  assumes "hasReflective m" and "\<not> hasRefractive m"
    and "choice u01 isect rng = Fin c" and "0 \<le> c" and "c < 1"
  shows "(c \<in> {0.2 <..< 1} \<longrightarrow>
            direction (ray (fst (scatterRay u01 ps isect m rng))) = dir_spec ps isect
            \<and> PathSegment.color (fst (scatterRay u01 ps isect m rng)) =
                PathSegment.color ps
                  * vmuls (Specular.color (specular m)) (Fin (interval_prob 0.2 1)))
       \<and> (c \<in> {0 .. 0.2} \<longrightarrow>
            direction (ray (fst (scatterRay u01 ps isect m rng))) = dir_diff u01 isect rng
            \<and> PathSegment.color (fst (scatterRay u01 ps isect m rng)) =
                PathSegment.color ps
                  * vmuls (Material.color m) (Fin (interval_prob 0 0.2)))
       \<and> interval_prob 0.2 1 = 1 - interval_prob 0 0.2"
  using assms by (simp add: scatterRay_result interval_prob_def)

theorem scatter_scale_is_branch_probability_witness:
  "hasReflective mirror \<and> \<not> hasRefractive mirror
   \<and> choice replay floor_hit [Fin 0.25, Fin 0.5, Fin 0.5] = Fin 0.5
   \<and> (0::real) \<le> 0.5 \<and> (0.5::real) < 1 \<and> (0.5::real) \<in> {0.2 <..< 1}
   \<and> PathSegment.color
        (fst (scatterRay replay falling_segment floor_hit mirror [Fin 0.25, Fin 0.5, Fin 0.5]))
      = PathSegment.color falling_segment
          * vmuls (Specular.color (specular mirror)) (Fin (interval_prob 0.2 1))
   \<and> choice replay floor_hit [Fin 0.25, Fin 0.5, Fin 0.125] = Fin 0.125
   \<and> (0::real) \<le> 0.125 \<and> (0.125::real) < 1 \<and> (0.125::real) \<in> {0 .. 0.2}
   \<and> PathSegment.color
        (fst (scatterRay replay falling_segment floor_hit mirror [Fin 0.25, Fin 0.5, Fin 0.125]))
      = PathSegment.color falling_segment
          * vmuls (Material.color mirror) (Fin (interval_prob 0 0.2))"
proof -
  have h1: "hasReflective mirror" and h2: "\<not> hasRefractive mirror"
    by (simp_all add: mirror_def)
  have c1: "choice replay floor_hit [Fin 0.25, Fin 0.5, Fin 0.5] = Fin 0.5"
    by (simp add: choice_replay)
  have c2: "choice replay floor_hit [Fin 0.25, Fin 0.5, Fin 0.125] = Fin 0.125"
    by (simp add: choice_replay)
  have i1: "(0::real) \<le> 0.5" and i2: "(0.5::real) < 1" and i3: "(0.5::real) \<in> {0.2 <..< 1}"
    by simp_all
  have j1: "(0::real) \<le> 0.125" and j2: "(0.125::real) < 1" and j3: "(0.125::real) \<in> {0 .. 0.2}"
    by simp_all
  show ?thesis
    using h1 h2 c1 c2 i1 i2 i3 j1 j2 j3
      scatter_scale_is_branch_probability [OF h1 h2 c1 i1 i2, of falling_segment]
      scatter_scale_is_branch_probability [OF h1 h2 c2 j1 j2, of falling_segment]
    by blast
qed

text \<open>Claim C8 says that for a material with neither flag set and the colour
  \<open>(0.5, 0.5, 0.5)\<close> the new direction is a cosine-weighted hemisphere sample about the
  normal, for every pair of drawn values.  With the drawn values \<open>1/4\<close>, \<open>1/32\<close> and \<open>1/2\<close>
  the colour after the call is the colour before it times \<open>(0.5, 0.5, 0.5)\<close> and the origin is
  the hit point plus \<open>0.001\<close> times the normal, but the three components of the new direction
  are not numbers: its dot product with the normal is not at least zero and its length is
  not one.\<close>

theorem scatter_pure_diffuse_direction_NaN:
  "\<not> hasReflective chalk \<and> \<not> hasRefractive chalk
   \<and> Material.color chalk = vec3 (Fin 0.5) (Fin 0.5) (Fin 0.5)
   \<and> fst (scatterRay replay falling_segment floor_hit chalk [Fin (1 / 4), Fin (1 / 32), Fin (1 / 2)]) =
       \<lparr>ray = \<lparr>origin = vec3 (Fin 0) (Fin 0) (Fin 0.001), direction = vec3 NaN NaN NaN\<rparr>,
        PathSegment.color = vec3 (Fin 0.5) (Fin 0.5) (Fin 0.5), pixelIndex = 7, remainingBounces = 3\<rparr>
   \<and> \<not> dot (direction (ray (fst (scatterRay replay falling_segment floor_hit chalk
            [Fin (1 / 4), Fin (1 / 32), Fin (1 / 2)])))) (surfaceNormal floor_hit) \<ge> Fin 0
   \<and> vlength (direction (ray (fst (scatterRay replay falling_segment floor_hit chalk
            [Fin (1 / 4), Fin (1 / 32), Fin (1 / 2)])))) \<noteq> Fin 1"
proof -
  have r: "fst (scatterRay replay falling_segment floor_hit chalk [Fin (1 / 4), Fin (1 / 32), Fin (1 / 2)]) =
       \<lparr>ray = \<lparr>origin = vec3 (Fin 0) (Fin 0) (Fin 0.001), direction = vec3 NaN NaN NaN\<rparr>,
        PathSegment.color = vec3 (Fin 0.5) (Fin 0.5) (Fin 0.5), pixelIndex = 7, remainingBounces = 3\<rparr>"
    by (simp add: scatterRay_result choice_replay floor_dir_diff_NaN intersect_def)
      (simp add: chalk_def falling_segment_def white_def grey_def intersect_def floor_hit_def unit_z_def)
  show ?thesis
    unfolding r by (simp add: vlength_def) (simp add: chalk_def grey_def floor_hit_def unit_z_def)
qed

text \<open>Claim C9: the call leaves the intersection as it is, and of the path segment it
  changes the origin and the direction of the ray and the colour only: the pixel index,
  the remaining bounces and every further field of the path segment and of the ray are
  those on entry.  The material is received by constant reference and is not among the
  objects the call can write to.\<close>

theorem scatter_frame:
  "fst (snd (scatterRay u01 ps isect m rng)) = isect
   \<and> pixelIndex (fst (scatterRay u01 ps isect m rng)) = pixelIndex ps
   \<and> remainingBounces (fst (scatterRay u01 ps isect m rng)) = remainingBounces ps
   \<and> PathSegment.more (fst (scatterRay u01 ps isect m rng)) = PathSegment.more ps
   \<and> Ray.more (ray (fst (scatterRay u01 ps isect m rng))) = Ray.more (ray ps)"
  by (simp add: scatterRay_intersection scatterRay_result)

text \<open>Claim C10: every call advances the engine by three draws, whatever the material.
  The hemisphere sampler is called on the engine state of entry and takes the first two
  drawn values, the first as \<open>s\<close> and the second as \<open>t\<close>; the choice that
  \<^verbatim>\<open>scatterRay\<close> compares with the reflectance and with \<open>0.2\<close> is the third drawn value.
  The path segment the call leaves is given branch by branch in these three values.\<close>

theorem scatter_draws:
  "snd (snd (scatterRay u01 ps isect m rng)) = advance u01 (advance u01 (advance u01 rng))
   \<and> shirleyRandomDirectionInHemisphere u01 (surfaceNormal isect) rng =
       (hemisphereDirection (surfaceNormal isect)
          (fsqrt (shirley_t_p (fst (u01 rng)) (fst (u01 (advance u01 rng)))))
          (fsqrt (Fin 1 - fsqrt (shirley_t_p (fst (u01 rng)) (fst (u01 (advance u01 rng))))
                          * fsqrt (shirley_t_p (fst (u01 rng)) (fst (u01 (advance u01 rng))))))
          (shirley_s_p (fst (u01 rng)) * TWO_PI),
        advance u01 (advance u01 rng))
   \<and> fst (scatterRay u01 ps isect m rng) =
       (if hasRefractive m then
          (if ratio m isect * sin_theta ps isect > Fin 1 then
             ps\<lparr>ray := (ray ps)
                  \<lparr>origin := intersect ps isect + smulv (Fin 0.001) (surfaceNormal isect),
                   direction := dir_spec ps isect\<rparr>,
                PathSegment.color := PathSegment.color ps * Specular.color (specular m)\<rparr>
           else if fst (u01 (advance u01 (advance u01 rng))) > reflectance ps isect m then
             ps\<lparr>ray := (ray ps)
                  \<lparr>origin := intersect ps isect - smulv (Fin 0.001) (surfaceNormal isect),
                   direction := dir_refr ps isect m\<rparr>,
                PathSegment.color := PathSegment.color ps * Material.color m\<rparr>
           else
             ps\<lparr>ray := (ray ps)
                  \<lparr>origin := intersect ps isect + smulv (Fin 0.001) (surfaceNormal isect),
                   direction := dir_spec ps isect\<rparr>,
                PathSegment.color := PathSegment.color ps * Specular.color (specular m)\<rparr>)
        else if hasReflective m \<and> fst (u01 (advance u01 (advance u01 rng))) > Fin 0.2 then
          ps\<lparr>ray := (ray ps)
               \<lparr>origin := intersect ps isect + smulv (Fin 0.001) (surfaceNormal isect),
                direction := dir_spec ps isect\<rparr>,
             PathSegment.color :=
               PathSegment.color ps * vmuls (Specular.color (specular m)) (Fin 0.8)\<rparr>
        else
          ps\<lparr>ray := (ray ps)
               \<lparr>origin := intersect ps isect + smulv (Fin 0.001) (surfaceNormal isect),
                direction :=
                  hemisphereDirection (surfaceNormal isect)
                    (fsqrt (shirley_t_p (fst (u01 rng)) (fst (u01 (advance u01 rng)))))
                    (fsqrt (Fin 1
                       - fsqrt (shirley_t_p (fst (u01 rng)) (fst (u01 (advance u01 rng))))
                         * fsqrt (shirley_t_p (fst (u01 rng)) (fst (u01 (advance u01 rng))))))
                    (shirley_s_p (fst (u01 rng)) * TWO_PI)\<rparr>,
             PathSegment.color :=
               PathSegment.color ps
                 * vmuls (Material.color m) (if hasReflective m then Fin 0.2 else Fin 1)\<rparr>)"
proof -
  have e: "snd (shirleyRandomDirectionInHemisphere u01 (surfaceNormal isect) rng)
             = advance u01 (advance u01 rng)"
    by (simp add: shirley_engine advance_def)
  have s: "snd (snd (scatterRay u01 ps isect m rng)) = advance u01 (advance u01 (advance u01 rng))"
    by (simp add: scatterRay_engine e) (simp add: advance_def)
  have v: "shirleyRandomDirectionInHemisphere u01 (surfaceNormal isect) rng =
       (hemisphereDirection (surfaceNormal isect)
          (fsqrt (shirley_t_p (fst (u01 rng)) (fst (u01 (advance u01 rng)))))
          (fsqrt (Fin 1 - fsqrt (shirley_t_p (fst (u01 rng)) (fst (u01 (advance u01 rng))))
                          * fsqrt (shirley_t_p (fst (u01 rng)) (fst (u01 (advance u01 rng))))))
          (shirley_s_p (fst (u01 rng)) * TWO_PI),
        advance u01 (advance u01 rng))"
    by (intro prod_eqI) (simp_all add: shirley_value e)
  have d: "dir_diff u01 isect rng =
       hemisphereDirection (surfaceNormal isect)
          (fsqrt (shirley_t_p (fst (u01 rng)) (fst (u01 (advance u01 rng)))))
          (fsqrt (Fin 1 - fsqrt (shirley_t_p (fst (u01 rng)) (fst (u01 (advance u01 rng))))
                          * fsqrt (shirley_t_p (fst (u01 rng)) (fst (u01 (advance u01 rng))))))
          (shirley_s_p (fst (u01 rng)) * TWO_PI)"
    by (simp add: dir_diff_def shirley_value)
  show ?thesis
    unfolding s v by (simp add: scatterRay_result choice_third d)
qed

theorem scatter_draws_witness:
  "snd (snd (scatterRay replay falling_segment floor_hit mirror
        [Fin (1 / 8), Fin (1 / 2), Fin (3 / 4), Fin (1 / 16)])) = [Fin (1 / 16)]
   \<and> PathSegment.color (fst (scatterRay replay falling_segment floor_hit mirror
        [Fin (1 / 8), Fin (1 / 2), Fin (3 / 4), Fin (1 / 16)])) = vec3 (Fin (4 / 5)) (Fin (4 / 5)) (Fin (4 / 5))
   \<and> PathSegment.color (fst (scatterRay replay falling_segment floor_hit mirror
        [Fin (3 / 4), Fin (1 / 2), Fin (1 / 8)])) = vec3 (Fin (1 / 5)) (Fin (1 / 5)) (Fin (1 / 5))
   \<and> direction (ray (fst (scatterRay replay falling_segment floor_hit mirror
        [Fin (3 / 4), Fin (1 / 2), Fin (1 / 8)]))) =
       hemisphereDirection unit_z (fsqrt (Fin (1 / 2)))
         (fsqrt (Fin 1 - fsqrt (Fin (1 / 2)) * fsqrt (Fin (1 / 2))))
         (Fin (3 / 2 - sqrt (1 / 2)) * TWO_PI)"
proof -
  have m: "hasReflective mirror" "\<not> hasRefractive mirror"
    "Specular.color (specular mirror) = white" "Material.color mirror = white"
    by (simp_all add: mirror_def)
  have p: "PathSegment.color falling_segment = white"
    by (simp add: falling_segment_def)
  have n: "surfaceNormal floor_hit = unit_z"
    by (simp add: floor_hit_def)
  have w: "white * vmuls white (Fin (4 / 5)) = vec3 (Fin (4 / 5)) (Fin (4 / 5)) (Fin (4 / 5))"
    "white * vmuls white (Fin (1 / 5)) = vec3 (Fin (1 / 5)) (Fin (1 / 5)) (Fin (1 / 5))"
    by (simp_all add: white_def)
  show ?thesis
    using scatter_draws [of replay falling_segment floor_hit mirror
        "[Fin (1 / 8), Fin (1 / 2), Fin (3 / 4), Fin (1 / 16)]"]
      scatter_draws [of replay falling_segment floor_hit mirror
        "[Fin (3 / 4), Fin (1 / 2), Fin (1 / 8)]"]
    by (simp add: advance_def m p n w remap_three_quarters)
qed

end
